theory Spec2Isabelle
  imports Main "HOL-Library.Multiset"
begin

section \<open>The page: elements, document and window\<close>

text \<open>
  The script reads two layout quantities of the live page: \<open>scrollWidth\<close> of the element
  found by \<open>document.querySelector("#wrap-scroll")\<close>, and \<open>window.innerWidth\<close>. Both are
  integers in the DOM (\<open>long\<close>), and the script only subtracts and negates them, which
  is exact in JavaScript's number type, so they are modelled as \<open>int\<close>. The only value of
  that arithmetic an \<open>int\<close> cannot tell apart is \<open>-0\<close>, which JavaScript's \<open>==\<close>, \<open>>=\<close>
  and number-to-string conversion all treat as \<open>0\<close>.

  The handler keeps a reference to the element in the constant \<open>w_scr\<close> and reads
  the element's width through it later, so elements live in a store addressed by
  references, and the document lists the references of the elements attached to it, in
  document order.
\<close>

type_synonym ref = nat

record element =
  elem_id :: string
  scrollWidth :: int

record page =
  document :: "ref list"
  heap :: "ref \<Rightarrow> element"
  innerWidth :: int

section \<open>JavaScript evaluation: results, errors, values\<close>

datatype js_error = TypeError

text \<open>
  An expression is evaluated in a page state and either throws or returns a value; it
  also returns the page state it leaves behind.
\<close>

type_synonym 'a js = "page \<Rightarrow> (js_error + 'a) \<times> page"

definition js_return :: "'a \<Rightarrow> 'a js" where
  "js_return v = (\<lambda>s. (Inr v, s))"

definition js_throw :: "js_error \<Rightarrow> 'a js" where
  "js_throw e = (\<lambda>s. (Inl e, s))"

definition js_bind :: "'a js \<Rightarrow> ('a \<Rightarrow> 'b js) \<Rightarrow> 'b js" where
  "js_bind m f = (\<lambda>s. case m s of
       (Inl e, s') \<Rightarrow> (Inl e, s')
     | (Inr v, s') \<Rightarrow> f v s')"

text \<open>
  \<open>document.querySelector\<close> for an id selector \<open>#name\<close>, the only form the horizontal
  scroll code uses: the first element of the document, in document order, whose id is
  \<open>name\<close>, or \<open>null\<close> (\<open>None\<close>) when there is none.
\<close>

definition querySelector :: "string \<Rightarrow> ref option js" where
  "querySelector sel =
     (\<lambda>s. (Inr (find (\<lambda>r. CHR ''#'' # elem_id (heap s r) = sel) (document s)), s))"

text \<open>
  The property read \<open>e.scrollWidth\<close>: on \<open>null\<close> it throws a \<open>TypeError\<close>, on an
  element it returns the element's current width from the store.
\<close>

definition get_scrollWidth :: "ref option \<Rightarrow> int js" where
  "get_scrollWidth e =
     (case e of
        None \<Rightarrow> js_throw TypeError
      | Some r \<Rightarrow> (\<lambda>s. (Inr (scrollWidth (heap s r)), s)))"

text \<open>The property read \<open>window.innerWidth\<close>.\<close>

definition get_innerWidth :: "int js" where
  "get_innerWidth = (\<lambda>s. (Inr (innerWidth s), s))"

text \<open>
  Numbers as the script computes with them: the integers (pixel counts and their
  differences) and \<open>NaN\<close>.
\<close>

datatype js_number = Finite int | NaN

text \<open>
  The values that occur as operands in the script's expressions: numbers and arrow
  functions. A function value carries the computation that a call of it would run.
\<close>

datatype js_value = Number js_number | Function "int js"

text \<open>
  \<open>ToNumber\<close>: a number is itself. A function is an object; its primitive value is its
  source text, which is not a numeric literal, so the result is \<open>NaN\<close>. The function is
  not called.
\<close>

fun to_number :: "js_value \<Rightarrow> js_number" where
  "to_number (Number n) = n"
| "to_number (Function f) = NaN"

text \<open>The operator \<open>*\<close> on numbers: \<open>NaN\<close> when an operand is \<open>NaN\<close>.\<close>

fun js_times :: "js_number \<Rightarrow> js_number \<Rightarrow> js_number" where
  "js_times (Finite a) (Finite b) = Finite (a * b)"
| "js_times _ _ = NaN"

text \<open>The operator \<open>*\<close> on values converts both operands with \<open>ToNumber\<close> first.\<close>

definition js_multiply :: "js_value \<Rightarrow> js_value \<Rightarrow> js_number" where
  "js_multiply a b = js_times (to_number a) (to_number b)"

text \<open>
  \<open>ToString\<close> on numbers: \<open>"NaN"\<close>, or the decimal digits with a leading minus sign
  for a negative integer (integers below \<open>10^21\<close> in magnitude print without an exponent).
\<close>

fun digits :: "nat \<Rightarrow> string" where
  "digits n =
     (if n < 10 then [''0123456789'' ! n]
      else digits (n div 10) @ [''0123456789'' ! (n mod 10)])"

declare digits.simps [simp del]

fun number_to_string :: "js_number \<Rightarrow> string" where
  "number_to_string NaN = ''NaN''"
| "number_to_string (Finite i) =
     (if i < 0 then CHR ''-'' # digits (nat (- i)) else digits (nat i))"

section \<open>The DOMContentLoaded handler: horizontal scroll\<close>

text \<open>
  The variables of the handler that its closures capture: \<open>w_scr\<close>, the result of
  \<open>document.querySelector("#wrap-scroll")\<close>, bound once.
\<close>

record scope =
  w_scr :: "ref option"

text \<open>
  \<^verbatim>\<open>const get_scr = () => { return -(w_scr.scrollWidth - window.innerWidth); };\<close>
  The left operand is read first, so a \<open>null\<close> \<open>w_scr\<close> throws before the window is read.
\<close>

definition get_scr :: "scope \<Rightarrow> int js" where
  "get_scr env =
     js_bind (get_scrollWidth (w_scr env)) (\<lambda>sw.
     js_bind get_innerWidth (\<lambda>iw.
     js_return (- (sw - iw))))"

text \<open>
  The object passed to \<open>gsap.to(w_scr, {...})\<close>, with its target. \<open>x\<close> is an arrow
  function that calls \<open>get_scr\<close>; the tween handle \<open>a\<close> is modelled by these arguments.
\<close>

record tween_vars =
  tween_target :: "ref option"
  ease :: string
  tween_x :: "int js"
  duration :: int

text \<open>The object passed to \<open>ScrollTrigger.create({...})\<close>. \<open>end\<close> is a string.\<close>

record scroll_trigger_vars =
  refreshPriority :: int
  trigger :: "ref option"
  start :: string
  end_value :: string
  pin :: bool
  animation :: tween_vars
  invalidateOnRefresh :: bool
  scrub :: int

text \<open>
  What the handler leaves behind for the horizontal scroll: the captured variables and
  the arguments of its two calls into the animation engine.
\<close>

record registration =
  closure :: scope
  tween :: tween_vars
  scroll_trigger :: scroll_trigger_vars

text \<open>
  The handler, lines 46 to 160 of \<open>src/index.js\<close>. The template literal
  \<^verbatim>\<open>`+=${get_scr * -1}`\<close> multiplies the value of the identifier \<open>get_scr\<close>, the
  function, and converts the product to a string. What the engine does inside
  \<open>gsap.to\<close> and \<open>ScrollTrigger.create\<close> is not part of this script; the remaining
  statements of the handler (fade-up, text split, parallax) use neither \<open>w_scr\<close> nor
  \<open>get_scr\<close>.
\<close>

definition on_ready :: "registration js" where
  "on_ready =
     js_bind (querySelector ''#wrap-scroll'') (\<lambda>w.
       let env = \<lparr>w_scr = w\<rparr>;
           a = \<lparr>tween_target = w,
                ease = ''slow(0.0000000001,0.0000000001,false)'',
                tween_x = get_scr env,
                duration = 5\<rparr>
       in js_return
            \<lparr>closure = env,
             tween = a,
             scroll_trigger =
               \<lparr>refreshPriority = - 1,
                trigger = w,
                start = ''top 20%'',
                end_value =
                  ''+='' @ number_to_string
                    (js_multiply (Function (get_scr env)) (Number (Finite (- 1)))),
                pin = True,
                animation = a,
                invalidateOnRefresh = True,
                scrub = 195\<rparr>\<rparr>)"

section \<open>Observing an evaluation\<close>

text \<open>
  The value an evaluation returned, if it returned, and the error it threw, if it threw.
\<close>

definition returned :: "(js_error + 'a) \<times> page \<Rightarrow> 'a option" where
  "returned r = (case fst r of Inl e \<Rightarrow> None | Inr v \<Rightarrow> Some v)"

definition thrown :: "(js_error + 'a) \<times> page \<Rightarrow> js_error option" where
  "thrown r = (case fst r of Inl e \<Rightarrow> Some e | Inr v \<Rightarrow> None)"

text \<open>
  Two evaluations of \<open>get_scr()\<close> in a row, the host changing the page by \<open>change\<close>
  between them (a resize, a new layout, or nothing): the two outcomes and the final page.
\<close>

definition two_calls ::
  "scope \<Rightarrow> (page \<Rightarrow> page) \<Rightarrow> page \<Rightarrow> (js_error + int) \<times> (js_error + int) \<times> page" where
  "two_calls env change s =
     (let (r1, s1) = get_scr env s;
          (r2, s2) = get_scr env (change s1)
      in (r1, r2, s2))"

text \<open>The host resizing the window to width \<open>V\<close>.\<close>

definition resize :: "int \<Rightarrow> page \<Rightarrow> page" where
  "resize V s = s\<lparr>innerWidth := V\<rparr>"

text \<open>
  The \<open>end\<close> value the specification describes, following its words: the activation
  span length is \<open>abs(computeScrollDistance())\<close> pixels of scroll, relative to the start.
\<close>

definition spec_end :: "scope \<Rightarrow> string js" where
  "spec_end env =
     js_bind (get_scr env) (\<lambda>d. js_return (''+='' @ number_to_string (Finite \<bar>d\<bar>)))"

section \<open>Pages used as concrete inputs\<close>

text \<open>
  A page whose document holds the container \<open>#wrap-scroll\<close> with content width \<open>C\<close>, in
  a window of width \<open>V\<close>; and a page of window width \<open>V\<close> with no container.
\<close>

definition wrap_scroll :: "int \<Rightarrow> element" where
  "wrap_scroll C = \<lparr>elem_id = ''wrap-scroll'', scrollWidth = C\<rparr>"

definition layout :: "int \<Rightarrow> int \<Rightarrow> page" where
  "layout C V = \<lparr>document = [0], heap = (\<lambda>r. wrap_scroll C), innerWidth = V\<rparr>"

definition layout_without_container :: "int \<Rightarrow> page" where
  "layout_without_container V =
     \<lparr>document = [], heap = (\<lambda>r. wrap_scroll 0), innerWidth = V\<rparr>"

text \<open>
  The arguments of \<open>ScrollTrigger.create\<close> that the handler builds on \<open>layout C V\<close>,
  where the container is the element at reference \<open>0\<close>.
\<close>

definition horizontal_trigger :: scroll_trigger_vars where
  "horizontal_trigger =
     \<lparr>refreshPriority = - 1, trigger = Some 0, start = ''top 20%'',
      end_value = ''+=NaN'', pin = True,
      animation =
        \<lparr>tween_target = Some 0,
         ease = ''slow(0.0000000001,0.0000000001,false)'',
         tween_x = get_scr \<lparr>w_scr = Some 0\<rparr>,
         duration = 5\<rparr>,
      invalidateOnRefresh = True, scrub = 195\<rparr>"

text \<open>
  Another scroll observer of the page, created without a \<open>refreshPriority\<close>, which the
  engine reads as the default \<open>0\<close>.
\<close>

definition default_observer :: scroll_trigger_vars where
  "default_observer =
     \<lparr>refreshPriority = 0, trigger = Some 1, start = ''top bottom'',
      end_value = ''bottom top'', pin = False,
      animation =
        \<lparr>tween_target = Some 1, ease = ''none'', tween_x = js_return 0, duration = 1\<rparr>,
      invalidateOnRefresh = False, scrub = 0\<rparr>"

section \<open>The engine's refresh pass\<close>

text \<open>
  The refresh pass belongs to the animation engine, not to this script, so a pass is a
  parameter here: the list of the page's scroll triggers in the order in which the engine
  recalculates them. The script's comment on \<open>refreshPriority\<close> gives the contract it
  relies on: lower priority refreshes later, negative values refresh after default (0)
  triggers. A pass honours it when no trigger is recalculated before one of higher
  priority.
\<close>

definition refreshes_by_priority :: "scroll_trigger_vars list \<Rightarrow> bool" where
  "refreshes_by_priority pass =
     sorted_wrt (\<lambda>a b. refreshPriority b \<le> refreshPriority a) pass"

section \<open>Basic facts\<close>

lemma get_scr_present:
  "w_scr env = Some r \<Longrightarrow>
   get_scr env s = (Inr (- (scrollWidth (heap s r) - innerWidth s)), s)"
  by (simp add: get_scr_def get_scrollWidth_def get_innerWidth_def js_bind_def js_return_def)

lemma get_scr_absent:
  "w_scr env = None \<Longrightarrow> get_scr env s = (Inl TypeError, s)"
  by (simp add: get_scr_def get_scrollWidth_def js_bind_def js_throw_def)

lemma end_template:
  "''+='' @ number_to_string (js_multiply (Function f) (Number (Finite (- 1)))) = ''+=NaN''"
  by (simp add: js_multiply_def)

lemma on_ready_eq:
  "on_ready s =
     (let w = find (\<lambda>r. elem_id (heap s r) = ''wrap-scroll'') (document s);
          a = \<lparr>tween_target = w,
               ease = ''slow(0.0000000001,0.0000000001,false)'',
               tween_x = get_scr \<lparr>w_scr = w\<rparr>,
               duration = 5\<rparr>
      in (Inr \<lparr>closure = \<lparr>w_scr = w\<rparr>,
               tween = a,
               scroll_trigger =
                 \<lparr>refreshPriority = - 1, trigger = w, start = ''top 20%'',
                  end_value = ''+=NaN'', pin = True, animation = a,
                  invalidateOnRefresh = True, scrub = 195\<rparr>\<rparr>, s))"
  unfolding on_ready_def querySelector_def js_bind_def js_return_def Let_def end_template
  by simp

lemma on_ready_layout:
  "map_option closure (returned (on_ready (layout C V))) = Some \<lparr>w_scr = Some 0\<rparr>"
  by (simp add: on_ready_eq returned_def layout_def wrap_scroll_def Let_def)

lemma on_ready_without_container:
  "map_option closure (returned (on_ready (layout_without_container V))) = Some \<lparr>w_scr = None\<rparr>"
  by (simp add: on_ready_eq returned_def layout_without_container_def Let_def)

lemma digits_1800: "digits 1800 = ''1800''"
  by (simp add: digits.simps)

lemma digits_0: "digits 0 = ''0''"
  by (simp add: digits.simps)

section \<open>The scroll distance\<close>

text \<open>
  C1. Whenever the container's content width \<open>C\<close> exceeds the viewport width \<open>V\<close>,
  \<open>get_scr\<close> returns \<open>-(C - V)\<close>: a negative number whose magnitude is the horizontal
  overflow. (For \<open>C = 3000\<close> and \<open>V = 1200\<close> this is \<open>-1800\<close>.)
\<close>

theorem get_scr_overflow:
  assumes "w_scr env = Some r"
    and "scrollWidth (heap s r) = C"
    and "innerWidth s = V"
    and "V < C"
  shows "returned (get_scr env s) = Some (- (C - V)) \<and> - (C - V) < 0 \<and> \<bar>- (C - V)\<bar> = C - V"
  using assms by (simp add: get_scr_present returned_def)

theorem get_scr_overflow_witness:
  "w_scr \<lparr>w_scr = Some 0\<rparr> = Some 0
   \<and> scrollWidth (heap (layout 3000 1200) 0) = 3000
   \<and> innerWidth (layout 3000 1200) = 1200
   \<and> (1200::int) < 3000
   \<and> returned (get_scr \<lparr>w_scr = Some 0\<rparr> (layout 3000 1200)) = Some (- 1800)"
  using get_scr_overflow [of "\<lparr>w_scr = Some 0\<rparr>" 0 "layout 3000 1200" 3000 1200]
  by (simp add: layout_def wrap_scroll_def)

text \<open>
  C4. \<open>get_scr\<close> keeps no cached result. In two calls with any change of the page
  between them, the second call returns the value derived from the widths after the
  change, whatever the first call returned.
\<close>

theorem get_scr_recomputes:
  assumes "w_scr env = Some r"
  shows "two_calls env change s =
           (Inr (- (scrollWidth (heap s r) - innerWidth s)),
            Inr (- (scrollWidth (heap (change s) r) - innerWidth (change s))),
            change s)"
  using assms by (simp add: two_calls_def get_scr_present)

theorem get_scr_recomputes_witness:
  "w_scr \<lparr>w_scr = Some 0\<rparr> = Some 0
   \<and> two_calls \<lparr>w_scr = Some 0\<rparr> (resize 800) (layout 3000 1200) =
       (Inr (- 1800), Inr (- 2200), resize 800 (layout 3000 1200))"
  using get_scr_recomputes [of "\<lparr>w_scr = Some 0\<rparr>" 0 "resize 800" "layout 3000 1200"]
  by (simp add: layout_def wrap_scroll_def resize_def)

text \<open>
  C7. Two consecutive calls of \<open>get_scr\<close> with no change of the page between them have
  the same outcome.
\<close>

theorem get_scr_idempotent:
  "fst (two_calls env id s) = fst (snd (two_calls env id s))"
  by (cases "w_scr env") (simp_all add: two_calls_def get_scr_present get_scr_absent)

text \<open>
  C10. \<open>get_scr\<close> has no side effect: every call, returning or throwing, leaves the
  page state as it found it, and so does a second call after it.
\<close>

theorem get_scr_no_side_effect:
  "snd (get_scr env s) = s \<and> snd (snd (two_calls env id s)) = s"
  by (cases "w_scr env") (simp_all add: two_calls_def get_scr_present get_scr_absent)

section \<open>The scroll trigger's configuration\<close>

text \<open>
  C3. In every page state the \<open>end\<close> value the handler passes to
  \<open>ScrollTrigger.create\<close> is the string \<open>"+=NaN"\<close>: the template multiplies the function
  \<open>get_scr\<close>, not its result, so the value does not depend on the layout, and being a
  string it is not evaluated again later.
\<close>

theorem end_value_is_NaN:
  "map_option (end_value \<circ> scroll_trigger) (returned (on_ready s)) = Some ''+=NaN''"
  by (simp add: on_ready_eq returned_def Let_def)

text \<open>
  C8. The trigger the handler registers is anchored to the container, the element that
  \<open>document.querySelector("#wrap-scroll")\<close> returns (the first element of the document
  whose id is \<open>wrap-scroll\<close>), and its \<open>start\<close> value is \<open>"top 20%"\<close>: activation begins
  when the container's top edge is 20% down the viewport.
\<close>

theorem start_is_top_20_percent:
  "map_option (start \<circ> scroll_trigger) (returned (on_ready s)) = Some ''top 20%''
   \<and> map_option (trigger \<circ> scroll_trigger) (returned (on_ready s))
       = returned (querySelector ''#wrap-scroll'' s)
   \<and> returned (querySelector ''#wrap-scroll'' s)
       = Some (find (\<lambda>r. elem_id (heap s r) = ''wrap-scroll'') (document s))"
  by (simp add: on_ready_eq returned_def querySelector_def Let_def)

text \<open>
  C2. The claim is that the registered \<open>end\<close> is the span \<open>abs(get_scr())\<close>. On the page
  with content width 3000 and viewport width 1200, \<open>get_scr\<close> returns \<open>-1800\<close> and the
  span the specification describes is \<open>"+=1800"\<close>, but the handler registers \<open>"+=NaN"\<close>.
\<close>

theorem end_value_at_3000_1200:
  "map_option closure (returned (on_ready (layout 3000 1200))) = Some \<lparr>w_scr = Some 0\<rparr>
   \<and> returned (get_scr \<lparr>w_scr = Some 0\<rparr> (layout 3000 1200)) = Some (- 1800)
   \<and> returned (spec_end \<lparr>w_scr = Some 0\<rparr> (layout 3000 1200)) = Some ''+=1800''
   \<and> map_option (end_value \<circ> scroll_trigger) (returned (on_ready (layout 3000 1200)))
       = Some ''+=NaN''"
  by (simp add: on_ready_eq returned_def Let_def get_scr_present spec_end_def js_bind_def
      js_return_def layout_def wrap_scroll_def digits_1800)

text \<open>
  A container that does not overflow the viewport: \<open>get_scr\<close> returns a value that is
  not negative.
\<close>

lemma get_scr_no_overflow:
  assumes "w_scr env = Some r"
    and "scrollWidth (heap s r) \<le> innerWidth s"
  shows "\<exists>d. returned (get_scr env s) = Some d \<and> 0 \<le> d"
  using assms by (simp add: get_scr_present returned_def)

text \<open>
  C6. On the page with content width 1200 and viewport width 1200, \<open>get_scr\<close> returns
  \<open>0\<close> as claimed, and the span the specification describes is \<open>"+=0"\<close>, but the handler
  registers \<open>"+=NaN"\<close>.
\<close>

theorem end_value_at_1200_1200:
  "map_option closure (returned (on_ready (layout 1200 1200))) = Some \<lparr>w_scr = Some 0\<rparr>
   \<and> returned (get_scr \<lparr>w_scr = Some 0\<rparr> (layout 1200 1200)) = Some 0
   \<and> returned (spec_end \<lparr>w_scr = Some 0\<rparr> (layout 1200 1200)) = Some ''+=0''
   \<and> map_option (end_value \<circ> scroll_trigger) (returned (on_ready (layout 1200 1200)))
       = Some ''+=NaN''"
  by (simp add: on_ready_eq returned_def Let_def get_scr_present spec_end_def js_bind_def
      js_return_def layout_def wrap_scroll_def digits_0)

section \<open>Refresh order\<close>

text \<open>
  C5. The handler registers its trigger with \<open>refreshPriority\<close> \<open>-1\<close>, below the default
  \<open>0\<close>. So in every refresh pass that orders recalculation by priority, the
  recalculation of the handler's trigger comes strictly after that of every
  default-priority observer.
\<close>

theorem refresh_after_default_priority:
  assumes "map_option scroll_trigger (returned (on_ready s)) = Some T"
    and "refreshes_by_priority pass"
    and "i < length pass" and "refreshPriority (pass ! i) = 0"
    and "j < length pass" and "pass ! j = T"
  shows "i < j"
proof (rule ccontr)
  assume "\<not> i < j"
  then have "j \<le> i" by simp
  have prio: "refreshPriority T = - 1"
    using assms(1) by (auto simp: on_ready_eq returned_def Let_def)
  have "j \<noteq> i"
    using prio assms(4,6) by auto
  with \<open>j \<le> i\<close> have "j < i" by simp
  then have "refreshPriority (pass ! i) \<le> refreshPriority (pass ! j)"
    using assms(2,3) by (simp add: refreshes_by_priority_def sorted_wrt_iff_nth_less)
  then show False
    using prio assms(4,6) by simp
qed

theorem refresh_after_default_priority_witness:
  "map_option scroll_trigger (returned (on_ready (layout 3000 1200))) = Some horizontal_trigger
   \<and> refreshes_by_priority [default_observer, horizontal_trigger]
   \<and> (0::nat) < length [default_observer, horizontal_trigger]
   \<and> refreshPriority ([default_observer, horizontal_trigger] ! 0) = 0
   \<and> (1::nat) < length [default_observer, horizontal_trigger]
   \<and> [default_observer, horizontal_trigger] ! 1 = horizontal_trigger
   \<and> (0::nat) < 1"
  using refresh_after_default_priority
    [of "layout 3000 1200" horizontal_trigger "[default_observer, horizontal_trigger]" 0 1]
  by (simp add: on_ready_eq returned_def Let_def layout_def wrap_scroll_def
      horizontal_trigger_def default_observer_def refreshes_by_priority_def)

section \<open>A page without the container\<close>

text \<open>
  C9, as claimed, fails: on a page without \<open>#wrap-scroll\<close> the handler binds \<open>w_scr\<close>
  to \<open>null\<close>, and evaluating \<open>get_scr\<close> then throws a \<open>TypeError\<close>.
\<close>

theorem get_scr_throws_without_container:
  "map_option closure (returned (on_ready (layout_without_container 1200)))
     = Some \<lparr>w_scr = None\<rparr>
   \<and> thrown (get_scr \<lparr>w_scr = None\<rparr> (layout_without_container 1200)) = Some TypeError"
  by (simp add: on_ready_eq returned_def thrown_def Let_def get_scr_absent
      layout_without_container_def)

text \<open>
  C9, amended. On a page without \<open>#wrap-scroll\<close> the handler itself throws nothing and
  leaves the page unchanged: it registers the tween with target \<open>null\<close> and the trigger
  with trigger element \<open>null\<close> and \<open>end\<close> \<open>"+=NaN"\<close>. Every later evaluation of
  \<open>get_scr\<close>, directly or through the tween's \<open>x\<close> function, in whatever state \<open>s\<close> the
  page then is, throws a \<open>TypeError\<close> and leaves the page unchanged.
\<close>

theorem without_container:
  assumes "returned (querySelector ''#wrap-scroll'' s0) = Some None"
  shows "thrown (on_ready s0) = None
    \<and> snd (on_ready s0) = s0
    \<and> map_option closure (returned (on_ready s0)) = Some \<lparr>w_scr = None\<rparr>
    \<and> map_option (tween_target \<circ> tween) (returned (on_ready s0)) = Some None
    \<and> map_option (trigger \<circ> scroll_trigger) (returned (on_ready s0)) = Some None
    \<and> map_option (end_value \<circ> scroll_trigger) (returned (on_ready s0)) = Some ''+=NaN''
    \<and> map_option (tween_x \<circ> tween) (returned (on_ready s0))
        = Some (get_scr \<lparr>w_scr = None\<rparr>)
    \<and> get_scr \<lparr>w_scr = None\<rparr> s = (Inl TypeError, s)"
  using assms
  by (simp add: on_ready_eq returned_def thrown_def Let_def get_scr_absent querySelector_def)

theorem without_container_witness:
  "returned (querySelector ''#wrap-scroll'' (layout_without_container 1200)) = Some None
   \<and> thrown (on_ready (layout_without_container 1200)) = None
   \<and> snd (on_ready (layout_without_container 1200)) = layout_without_container 1200
   \<and> map_option closure (returned (on_ready (layout_without_container 1200)))
       = Some \<lparr>w_scr = None\<rparr>
   \<and> map_option (tween_target \<circ> tween) (returned (on_ready (layout_without_container 1200)))
       = Some None
   \<and> map_option (trigger \<circ> scroll_trigger)
         (returned (on_ready (layout_without_container 1200))) = Some None
   \<and> map_option (end_value \<circ> scroll_trigger)
         (returned (on_ready (layout_without_container 1200))) = Some ''+=NaN''
   \<and> map_option (tween_x \<circ> tween) (returned (on_ready (layout_without_container 1200)))
       = Some (get_scr \<lparr>w_scr = None\<rparr>)
   \<and> get_scr \<lparr>w_scr = None\<rparr> (layout 3000 1200) = (Inl TypeError, layout 3000 1200)"
  using without_container [of "layout_without_container 1200" "layout 3000 1200"]
  by (simp add: querySelector_def returned_def layout_without_container_def)

end
